theory Spec2Isabelle
  imports
    Complex_Main
    "HOL-Library.Char_ord"
    "HOL-Library.List_Lexorder"
    "HOL-Library.Option_ord"
    "HOL-Library.AList"
begin

section \<open>The SNOTEL trend analysis (\<^verbatim>\<open>analyze_snowpack_trends\<close>)\<close>

text \<open>
  A shallow embedding of \<^verbatim>\<open>analyze_snowpack_trends\<close> from
  \<^verbatim>\<open>src/snotel_mcp_server/__init__.py\<close>. The function is one Python body; its
  consecutive blocks are given here as separate definitions that carry the names of the
  Python variables they compute (\<^verbatim>\<open>element_data\<close>, \<^verbatim>\<open>dates\<close>,
  \<^verbatim>\<open>measurements\<close>, \<^verbatim>\<open>snow_depths\<close>, \<^verbatim>\<open>snowfall_days\<close>, ...).

  Modelling decisions:
  \<^item> JSON numbers are exact rationals (\<^typ>\<open>rat\<close>). Python holds them as \<^verbatim>\<open>int\<close> or as
    binary \<^verbatim>\<open>float\<close>; the model idealises \<^verbatim>\<open>float\<close> arithmetic as exact, and
    \<^verbatim>\<open>round(x, n)\<close> as rounding the exact value half-to-even at \<open>n\<close> decimals.
  \<^item> \<^verbatim>\<open>d.get(k)\<close> yields \<^verbatim>\<open>None\<close> for a missing key and for a key holding JSON
    \<^verbatim>\<open>null\<close>; both are \<^term>\<open>None\<close> in an \<^typ>\<open>'a option\<close> field.
  \<^item> Date strings are compared as Python compares \<^verbatim>\<open>str\<close>: lexicographically by
    character code, the order of \<^typ>\<open>string\<close> given by the imported library theories.
  \<^item> A Python \<^verbatim>\<open>dict\<close> whose order or keys matter is an association list updated with
    \<^const>\<open>AList.update\<close>: an existing key keeps its position, a new key goes last.
  \<^item> An exception is a value \<^term>\<open>Inl e\<close> of \<open>py_exception + 'a\<close>; the outer
    \<^verbatim>\<open>except Exception\<close> of the tool turns it into the error document.
  \<^item> A normalized record keeps its \<^verbatim>\<open>"date"\<close> entry in a field of its own, apart from
    the element entries: element codes are AWDB codes (\<^verbatim>\<open>SNWD\<close>, \<^verbatim>\<open>WTEQ\<close>, ...),
    and the literal \<^verbatim>\<open>date\<close> is taken not to occur as one.
\<close>

subsection \<open>Data\<close>

datatype py_exception =
    TransportError string
  | TypeError
  | ValueError
  | IndexError
  | ZeroDivisionError

datatype json =
    JNull
  | JNum rat
  | JStr string
  | JArr "json list"
  | JObj "(string \<times> json) list"

text \<open>One entry of a \<^verbatim>\<open>values\<close> list: \<^verbatim>\<open>v.get("date")\<close> and \<^verbatim>\<open>v.get("value")\<close>.\<close>

record observation =
  date :: "string option"
  val :: "rat option"

text \<open>
  One item of a station's \<^verbatim>\<open>data\<close> list. \<open>elementCode\<close> is \<^term>\<open>None\<close> when the item
  has no \<^verbatim>\<open>stationElement\<close> or that has no \<^verbatim>\<open>elementCode\<close>; \<open>vals\<close> (the key
  \<^verbatim>\<open>values\<close>) is \<^term>\<open>None\<close> when the key is missing.
\<close>

record group =
  elementCode :: "string option"
  vals :: "observation list option"

record station =
  stationTriplet :: "string option"
  data :: "group list option"

text \<open>The record built per date: \<^verbatim>\<open>{"date": date, code: value, ...}\<close>.\<close>

record measurement =
  mdate :: "string option"
  elems :: "(string \<times> rat option) list"

record snowfall_day =
  sdate :: "string option"
  amount :: rat

subsection \<open>Python built-ins\<close>

text \<open>\<^verbatim>\<open>round(x, ndigits)\<close> on exact values: half-to-even at \<open>ndigits\<close> decimals.\<close>

definition py_round :: "nat \<Rightarrow> rat \<Rightarrow> rat" where
  "py_round ndigits x =
     (let s = 10 ^ ndigits; y = x * s; f = \<lfloor>y\<rfloor>; r = y - of_int f
      in of_int (if r < 1 / 2 then f else if 1 / 2 < r then f + 1
                 else if even f then f else f + 1) / s)"

text \<open>
  \<^verbatim>\<open>sorted(dates)\<close> on a set of dates. Comparing \<^verbatim>\<open>None\<close> with a \<^verbatim>\<open>str\<close>
  raises \<^verbatim>\<open>TypeError\<close>, and sorting two or more elements compares each of them at least
  once; a set holding only \<^verbatim>\<open>None\<close> sorts without any comparison.
\<close>

definition py_sorted :: "string option set \<Rightarrow> py_exception + string option list" where
  "py_sorted S =
     (if None \<in> S \<and> S \<noteq> {None} then Inl TypeError else Inr (sorted_list_of_set S))"

text \<open>\<^verbatim>\<open>max(xs)\<close>: \<^verbatim>\<open>ValueError\<close> on the empty list; a later item replaces the
  running maximum only when strictly greater.\<close>

fun py_max :: "rat list \<Rightarrow> py_exception + rat" where
  "py_max [] = Inl ValueError"
| "py_max (x # xs) = Inr (fold (\<lambda>item m. if m < item then item else m) xs x)"

text \<open>\<^verbatim>\<open>xs[0]\<close>.\<close>

fun py_first :: "'a list \<Rightarrow> py_exception + 'a" where
  "py_first [] = Inl IndexError"
| "py_first (x # xs) = Inr x"

text \<open>\<^verbatim>\<open>a / b\<close>.\<close>

definition py_truediv :: "rat \<Rightarrow> rat \<Rightarrow> py_exception + rat" where
  "py_truediv a b = (if b = 0 then Inl ZeroDivisionError else Inr (a / b))"

text \<open>Sequencing of statements that may raise.\<close>

definition bind_exc :: "py_exception + 'a \<Rightarrow> ('a \<Rightarrow> py_exception + 'b) \<Rightarrow> py_exception + 'b" where
  "bind_exc m f = (case m of Inl e \<Rightarrow> Inl e | Inr x \<Rightarrow> f x)"

text \<open>\<^verbatim>\<open>str(e)\<close>, the texts of the built-in exceptions without their quotation marks
  and operator signs. For the comparison error Python names the two types in the order
  in which the sort met them.\<close>

fun str_exc :: "py_exception \<Rightarrow> string" where
  "str_exc (TransportError msg) = msg"
| "str_exc TypeError = ''not supported between instances of NoneType and str''"
| "str_exc ValueError = ''max() arg is an empty sequence''"
| "str_exc IndexError = ''list index out of range''"
| "str_exc ZeroDivisionError = ''division by zero''"

subsection \<open>Parsing measurements (lines 385--410)\<close>

text \<open>\<^verbatim>\<open>code = item.get("stationElement", {}).get("elementCode", "")\<close> and
  \<^verbatim>\<open>values = item.get("values", [])\<close>.\<close>

definition code_of :: "group \<Rightarrow> string" where
  "code_of item = (case elementCode item of None \<Rightarrow> '''' | Some c \<Rightarrow> c)"

definition values_of :: "group \<Rightarrow> observation list" where
  "values_of item = (case vals item of None \<Rightarrow> [] | Some vs \<Rightarrow> vs)"

text \<open>The loop \<^verbatim>\<open>for item in station_data: element_data[code] = values\<close>, started on the
  dictionary built so far.\<close>

fun element_data_loop ::
  "group list \<Rightarrow> (string \<times> observation list) list \<Rightarrow> (string \<times> observation list) list" where
  "element_data_loop [] ed = ed"
| "element_data_loop (item # rest) ed =
     element_data_loop rest (AList.update (code_of item) (values_of item) ed)"

definition element_data :: "group list \<Rightarrow> (string \<times> observation list) list" where
  "element_data station_data = element_data_loop station_data []"

text \<open>\<^verbatim>\<open>dates = set(); for values in element_data.values(): for v in values:
  dates.add(v.get("date"))\<close>.\<close>

definition dates :: "(string \<times> observation list) list \<Rightarrow> string option set" where
  "dates ed = set (concat (map (\<lambda>(code, vs). map date vs) ed))"

text \<open>The innermost loop: the first \<open>v\<close> with \<^verbatim>\<open>v.get("date") == date\<close>, then
  \<^verbatim>\<open>break\<close>.\<close>

fun first_match :: "string option \<Rightarrow> observation list \<Rightarrow> observation option" where
  "first_match d [] = None"
| "first_match d (v # vs) = (if date v = d then Some v else first_match d vs)"

text \<open>The loop over \<^verbatim>\<open>element_data.items()\<close> that fills one record.\<close>

fun fill_record ::
  "string option \<Rightarrow> (string \<times> observation list) list \<Rightarrow> measurement \<Rightarrow> measurement" where
  "fill_record d [] record = record"
| "fill_record d ((code, vs) # rest) record =
     fill_record d rest
       (case first_match d vs of
          None \<Rightarrow> record
        | Some v \<Rightarrow> record\<lparr>elems := AList.update code (val v) (elems record)\<rparr>)"

definition make_record :: "(string \<times> observation list) list \<Rightarrow> string option \<Rightarrow> measurement" where
  "make_record ed d = fill_record d ed \<lparr>mdate = d, elems = []\<rparr>"

text \<open>The body of \<^verbatim>\<open>if station.get("stationTriplet") == station_triplet\<close>: the records
  of one station's list of groups, in the order of \<^verbatim>\<open>sorted(dates)\<close>.\<close>

definition normalize_station :: "group list \<Rightarrow> py_exception + measurement list" where
  "normalize_station station_data =
     (let ed = element_data station_data
      in bind_exc (py_sorted (dates ed)) (\<lambda>ds. Inr (map (make_record ed) ds)))"

text \<open>The loop \<^verbatim>\<open>for station in data\<close>, appending to \<^verbatim>\<open>measurements\<close>.\<close>

fun parse_loop ::
  "string \<Rightarrow> station list \<Rightarrow> measurement list \<Rightarrow> py_exception + measurement list" where
  "parse_loop station_triplet [] measurements = Inr measurements"
| "parse_loop station_triplet (st # rest) measurements =
     (if stationTriplet st = Some station_triplet
      then bind_exc
             (normalize_station (case data st of None \<Rightarrow> [] | Some station_data \<Rightarrow> station_data))
             (\<lambda>records. parse_loop station_triplet rest (measurements @ records))
      else parse_loop station_triplet rest measurements)"

definition parse_measurements :: "string \<Rightarrow> station list \<Rightarrow> py_exception + measurement list" where
  "parse_measurements station_triplet stations = parse_loop station_triplet stations []"

subsection \<open>Analysis (lines 415--494)\<close>

text \<open>\<^verbatim>\<open>[(r["date"], r["SNWD"]) for r in measurements if "SNWD" in r and r["SNWD"] is
  not None]\<close>, and the same comprehension for \<^verbatim>\<open>WTEQ\<close>.\<close>

definition snow_depths :: "measurement list \<Rightarrow> (string option \<times> rat) list" where
  "snow_depths measurements =
     List.map_filter
       (\<lambda>r. case map_of (elems r) ''SNWD'' of
              Some (Some x) \<Rightarrow> Some (mdate r, x)
            | _ \<Rightarrow> None)
       measurements"

definition swes :: "measurement list \<Rightarrow> (string option \<times> rat) list" where
  "swes measurements =
     List.map_filter
       (\<lambda>r. case map_of (elems r) ''WTEQ'' of
              Some (Some x) \<Rightarrow> Some (mdate r, x)
            | _ \<Rightarrow> None)
       measurements"

text \<open>Values as they appear in the JSON document.\<close>

definition json_date :: "string option \<Rightarrow> json" where
  "json_date d = (case d of None \<Rightarrow> JNull | Some s \<Rightarrow> JStr s)"

definition json_value :: "rat option \<Rightarrow> json" where
  "json_value v = (case v of None \<Rightarrow> JNull | Some x \<Rightarrow> JNum x)"

definition json_of_measurement :: "measurement \<Rightarrow> json" where
  "json_of_measurement r =
     JObj ((''date'', json_date (mdate r)) # map (\<lambda>(code, v). (code, json_value v)) (elems r))"

definition json_of_snowfall_day :: "snowfall_day \<Rightarrow> json" where
  "json_of_snowfall_day s = JObj [(''date'', json_date (sdate s)), (''amount'', JNum (amount s))]"

text \<open>The block \<^verbatim>\<open>if snow_depths: ...\<close> (lines 432--446): it assigns
  \<^verbatim>\<open>result["snow_depth_analysis"]\<close> or leaves \<^verbatim>\<open>result\<close> as it is.\<close>

definition snow_depth_block ::
  "(string option \<times> rat) list \<Rightarrow> (string \<times> json) list \<Rightarrow> py_exception + (string \<times> json) list" where
  "snow_depth_block sd result =
     (if sd = [] then Inr result
      else
        let depths = map snd sd in
        bind_exc (py_max depths) (\<lambda>peak_depth.
        bind_exc (py_first (map fst (filter (\<lambda>d. snd d = peak_depth) sd))) (\<lambda>peak_date.
        bind_exc (py_truediv (sum_list depths) (of_nat (length depths))) (\<lambda>average.
          Inr (AList.update ''snow_depth_analysis''
                (JObj
                  [(''peak_depth'',
                      JObj [(''value'', JNum (py_round 1 peak_depth)),
                            (''date'', json_date peak_date),
                            (''unit'', JStr ''inches'')]),
                   (''average_depth'', JNum (py_round 1 average)),
                   (''days_with_snow'', JNum (of_nat (length (filter (\<lambda>d. 0 < d) depths)))),
                   (''total_observations'', JNum (of_nat (length depths)))])
                result)))))"

text \<open>The block \<^verbatim>\<open>if swes: ...\<close> (lines 452--465).\<close>

definition swe_block ::
  "(string option \<times> rat) list \<Rightarrow> (string \<times> json) list \<Rightarrow> py_exception + (string \<times> json) list" where
  "swe_block sw result =
     (if sw = [] then Inr result
      else
        let swe_values = map snd sw in
        bind_exc (py_max swe_values) (\<lambda>peak_swe.
        bind_exc (py_first (map fst (filter (\<lambda>s. snd s = peak_swe) sw))) (\<lambda>peak_swe_date.
        bind_exc (py_truediv (sum_list swe_values) (of_nat (length swe_values))) (\<lambda>average.
          Inr (AList.update ''swe_analysis''
                (JObj
                  [(''peak_swe'',
                      JObj [(''value'', JNum (py_round 2 peak_swe)),
                            (''date'', json_date peak_swe_date),
                            (''unit'', JStr ''inches'')]),
                   (''average_swe'', JNum (py_round 2 average)),
                   (''total_observations'', JNum (of_nat (length swe_values)))])
                result)))))"

text \<open>The loop \<^verbatim>\<open>for i in range(1, len(snow_depths))\<close> (lines 468--476), from index
  \<open>i\<close> on, with the list \<^verbatim>\<open>snowfall_days\<close> built so far. Both reads are in range,
  as \<open>1 \<le> i < len(snow_depths)\<close>.\<close>

function snowfall_loop ::
  "nat \<Rightarrow> (string option \<times> rat) list \<Rightarrow> snowfall_day list \<Rightarrow> snowfall_day list" where
  "snowfall_loop i sd acc =
     (if i < length sd then
        let prev_depth = snd (sd ! (i - 1)); curr_depth = snd (sd ! i) in
        snowfall_loop (i + 1) sd
          (if prev_depth < curr_depth
           then acc @ [\<lparr>sdate = fst (sd ! i), amount = py_round 1 (curr_depth - prev_depth)\<rparr>]
           else acc)
      else acc)"
  by pat_completeness auto
termination
  by (relation "measure (\<lambda>(i, sd, acc). length sd - i)") auto

definition snowfall_days :: "(string option \<times> rat) list \<Rightarrow> snowfall_day list" where
  "snowfall_days sd = snowfall_loop 1 sd []"

text \<open>The block \<^verbatim>\<open>if snowfall_days: ...\<close> (lines 478--494).\<close>

definition snowfall_block ::
  "snowfall_day list \<Rightarrow> (string \<times> json) list \<Rightarrow> py_exception + (string \<times> json) list" where
  "snowfall_block days result =
     (if days = [] then Inr result
      else
        let snowfall_amounts = map amount days;
            total_snowfall = sum_list snowfall_amounts in
        bind_exc (py_max snowfall_amounts) (\<lambda>max_daily.
        bind_exc (py_first (filter (\<lambda>s. amount s = max_daily) days)) (\<lambda>max_daily_record.
        bind_exc (py_truediv total_snowfall (of_nat (length days))) (\<lambda>average.
          Inr (AList.update ''snowfall_analysis''
                (JObj
                  [(''total_new_snow'', JNum (py_round 1 total_snowfall)),
                   (''snow_days'', JNum (of_nat (length days))),
                   (''biggest_day'',
                      JObj [(''amount'', JNum (py_round 1 max_daily)),
                            (''date'', json_date (sdate max_daily_record)),
                            (''unit'', JStr ''inches'')]),
                   (''average_per_snow_day'', JNum (py_round 1 average)),
                   (''snowfall_events'', JArr (map json_of_snowfall_day days))])
                result)))))"

text \<open>The initial \<^verbatim>\<open>result\<close> dictionary (lines 415--426).\<close>

definition initial_result ::
  "string \<Rightarrow> string \<Rightarrow> string \<Rightarrow> measurement list \<Rightarrow> (string \<times> json) list" where
  "initial_result station_triplet start_date end_date measurements =
     [(''station_triplet'', JStr station_triplet),
      (''period'', JObj [(''start_date'', JStr start_date), (''end_date'', JStr end_date)]),
      (''total_records'', JNum (of_nat (length measurements))),
      (''snow_depth_analysis'', JObj []),
      (''swe_analysis'', JObj []),
      (''snowfall_analysis'', JObj []),
      (''measurements'', JArr (map json_of_measurement measurements))]"

text \<open>Lines 415--494: the summary of a non-empty list of measurements.\<close>

definition trend_summary ::
  "string \<Rightarrow> string \<Rightarrow> string \<Rightarrow> measurement list \<Rightarrow> py_exception + (string \<times> json) list" where
  "trend_summary station_triplet start_date end_date measurements =
     bind_exc (snow_depth_block (snow_depths measurements)
                 (initial_result station_triplet start_date end_date measurements)) (\<lambda>r1.
     bind_exc (swe_block (swes measurements) r1) (\<lambda>r2.
     snowfall_block (snowfall_days (snow_depths measurements)) r2))"

text \<open>The \<^verbatim>\<open>try\<close> body. \<open>response\<close> is what \<^verbatim>\<open>api_client.get_station_data\<close> did:
  it raised (a transport or HTTP failure), or it returned the list of stations.\<close>

definition analyze_body ::
  "string \<Rightarrow> string \<Rightarrow> string \<Rightarrow> py_exception + station list \<Rightarrow> py_exception + json" where
  "analyze_body station_triplet start_date end_date response =
     bind_exc response (\<lambda>stations.
       if stations = []
       then Inr (JObj [(''error'', JStr (''No data available for analysis: '' @ station_triplet))])
       else
         bind_exc (parse_measurements station_triplet stations) (\<lambda>measurements.
           if measurements = []
           then Inr (JObj [(''error'', JStr ''No measurements found for analysis'')])
           else bind_exc (trend_summary station_triplet start_date end_date measurements)
                  (\<lambda>result. Inr (JObj result))))"

text \<open>The tool: the document it serialises with \<^verbatim>\<open>json.dumps\<close>. The handler
  \<^verbatim>\<open>except Exception as e\<close> answers every exception of the body.\<close>

definition analyze_snowpack_trends ::
  "string \<Rightarrow> string \<Rightarrow> string \<Rightarrow> py_exception + station list \<Rightarrow> json" where
  "analyze_snowpack_trends station_triplet start_date end_date response =
     (case analyze_body station_triplet start_date end_date response of
        Inl e \<Rightarrow> JObj [(''error'', JStr (''Error analyzing snowpack trends: '' @ str_exc e))]
      | Inr document \<Rightarrow> document)"

subsection \<open>The shape of a document\<close>

text \<open>What a caller can tell of a document without reading its texts and numbers: its
  keys, in order, each with the kind of value it holds.\<close>

datatype kind = KNull | KNum | KStr | KArr | KObj

fun kind_of :: "json \<Rightarrow> kind" where
  "kind_of JNull = KNull"
| "kind_of (JNum x) = KNum"
| "kind_of (JStr s) = KStr"
| "kind_of (JArr xs) = KArr"
| "kind_of (JObj kvs) = KObj"

definition shape :: "json \<Rightarrow> (string \<times> kind) list" where
  "shape j = (case j of JObj kvs \<Rightarrow> map (\<lambda>(k, v). (k, kind_of v)) kvs | _ \<Rightarrow> [])"

section \<open>Properties\<close>

subsection \<open>Sequencing\<close>

lemma bind_exc_Inr [simp]: "bind_exc (Inr x) f = f x"
  by (simp add: bind_exc_def)

lemma bind_exc_Inl [simp]: "bind_exc (Inl e) f = Inl e"
  by (simp add: bind_exc_def)

lemma bind_exc_eq_Inr: "bind_exc m f = Inr y \<longleftrightarrow> (\<exists>x. m = Inr x \<and> f x = Inr y)"
  by (cases m) simp_all

subsection \<open>The dictionary of element series\<close>

lemma distinct_element_data_loop:
  "distinct (map fst ed) \<Longrightarrow> distinct (map fst (element_data_loop gs ed))"
  by (induction gs arbitrary: ed) (simp_all add: AList.distinct_update)

lemma distinct_element_data: "distinct (map fst (element_data gs))"
  by (simp add: element_data_def distinct_element_data_loop)

lemma element_data_loop_append:
  "element_data_loop (gs1 @ gs2) ed = element_data_loop gs2 (element_data_loop gs1 ed)"
  by (induction gs1 arbitrary: ed) simp_all

lemma map_of_element_data_loop_other:
  "c \<notin> code_of ` set gs \<Longrightarrow> map_of (element_data_loop gs ed) c = map_of ed c"
  by (induction gs arbitrary: ed) (simp_all add: AList.update_conv')

lemma map_of_element_data_last:
  "code_of g \<notin> code_of ` set gs2 \<Longrightarrow>
   map_of (element_data (gs1 @ g # gs2)) (code_of g) = Some (values_of g)"
  by (simp add: element_data_def element_data_loop_append map_of_element_data_loop_other
      AList.update_conv')

subsection \<open>Records\<close>

lemma mdate_fill_record [simp]: "mdate (fill_record d ed r) = mdate r"
  by (induction d ed r rule: fill_record.induct) (simp_all split: option.splits)

lemma mdate_make_record [simp]: "mdate (make_record ed d) = d"
  by (simp add: make_record_def)

text \<open>What a record holds under a code once the loop over the dictionary has run: the
  value of the first entry of that code's series with the record's date, whatever that
  value is; the earlier content where the series has no such entry.\<close>

lemma map_of_elems_fill_record:
  "distinct (map fst ed) \<Longrightarrow>
   map_of (elems (fill_record d ed r)) c =
     (case map_of ed c of
        None \<Rightarrow> map_of (elems r) c
      | Some vs \<Rightarrow> (case first_match d vs of
                      None \<Rightarrow> map_of (elems r) c
                    | Some v \<Rightarrow> Some (val v)))"
proof (induction d ed r rule: fill_record.induct)
  case (1 d r)
  then show ?case by simp
next
  case (2 d code vs rest r)
  from "2.prems" have dist: "distinct (map fst rest)" and notin: "code \<notin> fst ` set rest"
    by auto
  from notin have none: "map_of rest code = None"
    by (simp add: map_of_eq_None_iff)
  show ?case
    using none by (auto simp: "2.IH" [OF dist] AList.update_conv' split: option.splits)
qed

lemma map_of_elems_make_record:
  "map_of (elems (make_record (element_data gs) d)) c =
     (case map_of (element_data gs) c of
        None \<Rightarrow> None
      | Some vs \<Rightarrow> map_option val (first_match d vs))"
  by (simp add: make_record_def map_of_elems_fill_record [OF distinct_element_data]
      split: option.splits)

subsection \<open>Sorted dates\<close>

lemma finite_dates [simp]: "finite (dates ed)"
  unfolding dates_def by (rule finite_set)

lemma py_sorted_Inr: "py_sorted S = Inr ds \<Longrightarrow> ds = sorted_list_of_set S"
  by (simp add: py_sorted_def split: if_splits)

lemma normalize_station_Inr:
  "normalize_station gs = Inr ms \<Longrightarrow>
   ms = map (make_record (element_data gs)) (sorted_list_of_set (dates (element_data gs)))"
  by (auto simp: normalize_station_def Let_def bind_exc_eq_Inr dest: py_sorted_Inr)


subsection \<open>The depth series and the snowfall loop\<close>



declare snowfall_loop.simps [simp del]


subsection \<open>First match, last group\<close>



lemma normalize_station_mem:
  "normalize_station gs = Inr ms \<Longrightarrow> r \<in> set ms \<Longrightarrow> r = make_record (element_data gs) (mdate r)"
  by (auto dest!: normalize_station_Inr)

lemma update_swap_through:
  "k \<noteq> c \<Longrightarrow>
   AList.update k w (AList.update c v ed) =
   AList.update c v (AList.update k w (AList.update c u ed))"
  by (induction ed) (auto simp: AList.update_last)

lemma element_data_loop_overwritten:
  "c \<in> code_of ` set gs \<Longrightarrow>
   element_data_loop gs (AList.update c v ed) = element_data_loop gs (AList.update c v' ed)"
proof (induction gs arbitrary: ed)
  case Nil
  then show ?case by simp
next
  case (Cons h gs)
  show ?case
  proof (cases "code_of h = c")
    case True
    then show ?thesis by (simp add: AList.update_last)
  next
    case False
    with Cons.prems have "c \<in> code_of ` set gs" by auto
    from Cons.IH [OF this] show ?thesis
      using False 
      by (simp add: update_swap_through [of "code_of h" c _ v ed "[]"]
          update_swap_through [of "code_of h" c _ v' ed "[]"])
  qed
qed

subsection \<open>When sorting the dates succeeds\<close>





subsection \<open>Rounding, maxima and first occurrences\<close>

lemma py_round_exact:
  assumes "x * 10 ^ n \<in> \<int>"
  shows "py_round n x = x"
proof -
  from assms obtain m :: int where m: "x * 10 ^ n = of_int m"
    by (auto elim: Ints_cases)
  then have "py_round n x = of_int m / 10 ^ n"
    by (simp add: py_round_def Let_def)
  also have "\<dots> = x"
    using m by (simp add: field_simps)
  finally show ?thesis .
qed



lemma py_round_numeral [simp]: "py_round n (numeral k) = numeral k"
  by (rule py_round_exact) simp

lemma fold_py_max: "fold (\<lambda>item m. if m < item then item else m) xs (x::rat) = Max (set (x # xs))"
proof -
  have "(\<lambda>item m. if m < item then item else m) = (max :: rat \<Rightarrow> rat \<Rightarrow> rat)"
    by (auto simp: fun_eq_iff max_def)
  then show ?thesis
    using Max.set_eq_fold [of x xs] by simp
qed

lemma py_max_eq: "xs \<noteq> [] \<Longrightarrow> py_max xs = Inr (Max (set xs))"
  by (cases xs) (simp_all add: fold_py_max del: set_simps)

lemma py_first_filter:
  "\<exists>x\<in>set xs. P x \<Longrightarrow>
   \<exists>k<length xs. P (xs ! k) \<and> (\<forall>j<k. \<not> P (xs ! j)) \<and> py_first (filter P xs) = Inr (xs ! k)"
proof (induction xs)
  case Nil
  then show ?case by simp
next
  case (Cons x xs)
  show ?case
  proof (cases "P x")
    case True
    then have "P ((x # xs) ! 0) \<and> (\<forall>j<0. \<not> P ((x # xs) ! j))
        \<and> py_first (filter P (x # xs)) = Inr ((x # xs) ! 0)"
      by simp
    then show ?thesis by blast
  next
    case False
    with Cons.prems have "\<exists>x\<in>set xs. P x" by auto
    from Cons.IH [OF this] obtain k where k: "k < length xs" "P (xs ! k)"
      "\<forall>j<k. \<not> P (xs ! j)" "py_first (filter P xs) = Inr (xs ! k)"
      by blast
    have "\<forall>j<Suc k. \<not> P ((x # xs) ! j)"
      using False k(3) by (auto simp: nth_Cons split: nat.splits)
    with k False have "Suc k < length (x # xs) \<and> P ((x # xs) ! Suc k)
        \<and> (\<forall>j<Suc k. \<not> P ((x # xs) ! j))
        \<and> py_first (filter P (x # xs)) = Inr ((x # xs) ! Suc k)"
      by simp
    then show ?thesis by blast
  qed
qed


lemma first_maximum:
  fixes f :: "'a \<Rightarrow> rat"
  assumes "xs \<noteq> []"
  shows "\<exists>k<length xs. (\<forall>j<length xs. f (xs ! j) \<le> f (xs ! k)) \<and> (\<forall>j<k. f (xs ! j) < f (xs ! k))
           \<and> py_max (map f xs) = Inr (f (xs ! k))
           \<and> py_first (filter (\<lambda>x. f x = f (xs ! k)) xs) = Inr (xs ! k)"
proof -
  define m where "m = Max (set (map f xs))"
  have fin: "finite (set (map f xs))" and ne: "set (map f xs) \<noteq> {}"
    using assms by simp_all
  have "m \<in> set (map f xs)"
    unfolding m_def using fin ne by (rule Max_in)
  then have "\<exists>x\<in>set xs. f x = m"
    by auto
  from py_first_filter [of xs "\<lambda>x. f x = m", OF this]
  obtain k where k: "k < length xs" "f (xs ! k) = m" "\<forall>j<k. f (xs ! j) \<noteq> m"
    "py_first (filter (\<lambda>x. f x = m) xs) = Inr (xs ! k)"
    by blast
  have le: "f (xs ! j) \<le> m" if "j < length xs" for j
  proof -
    from that have "f (xs ! j) \<in> set (map f xs)" by simp
    with fin show ?thesis unfolding m_def by (rule Max_ge)
  qed
  have lt: "f (xs ! j) < m" if "j < k" for j
  proof -
    from that k(1) have "j < length xs" by simp
    from le [OF this] k(3) that show ?thesis by (simp add: order_less_le)
  qed
  have pm: "py_max (map f xs) = Inr m"
    unfolding m_def using assms by (simp add: py_max_eq)
  have "(\<forall>j<length xs. f (xs ! j) \<le> f (xs ! k)) \<and> (\<forall>j<k. f (xs ! j) < f (xs ! k))
           \<and> py_max (map f xs) = Inr (f (xs ! k))
           \<and> py_first (filter (\<lambda>x. f x = f (xs ! k)) xs) = Inr (xs ! k)"
    unfolding k(2) using le lt pm k(4) by blast
  with k(1) show ?thesis by blast
qed

subsection \<open>The three analysis blocks\<close>

lemma py_first_map: "py_first xs = Inr x \<Longrightarrow> py_first (map g xs) = Inr (g x)"
  by (cases xs) auto

lemma snow_depth_block_first_max:
  assumes "sd \<noteq> []"
  shows "\<exists>k<length sd.
           (\<forall>j<length sd. snd (sd ! j) \<le> snd (sd ! k)) \<and> (\<forall>j<k. snd (sd ! j) < snd (sd ! k))
           \<and> snow_depth_block sd result =
               Inr (AList.update ''snow_depth_analysis''
                     (JObj
                       [(''peak_depth'',
                           JObj [(''value'', JNum (py_round 1 (snd (sd ! k)))),
                                 (''date'', json_date (fst (sd ! k))),
                                 (''unit'', JStr ''inches'')]),
                        (''average_depth'',
                           JNum (py_round 1 (sum_list (map snd sd) / of_nat (length sd)))),
                        (''days_with_snow'',
                           JNum (of_nat (length (filter (\<lambda>d. 0 < snd d) sd)))),
                        (''total_observations'', JNum (of_nat (length sd)))])
                     result)"
proof -
  from first_maximum [OF assms, of snd] obtain k where k: "k < length sd"
    "\<forall>j<length sd. snd (sd ! j) \<le> snd (sd ! k)" "\<forall>j<k. snd (sd ! j) < snd (sd ! k)"
    "py_max (map snd sd) = Inr (snd (sd ! k))"
    "py_first (filter (\<lambda>x. snd x = snd (sd ! k)) sd) = Inr (sd ! k)"
    by blast
  have days: "length (filter (\<lambda>d. 0 < d) (map snd sd)) = length (filter (\<lambda>d. 0 < snd d) sd)"
    by (simp add: filter_map comp_def)
  have "snow_depth_block sd result =
               Inr (AList.update ''snow_depth_analysis''
                     (JObj
                       [(''peak_depth'',
                           JObj [(''value'', JNum (py_round 1 (snd (sd ! k)))),
                                 (''date'', json_date (fst (sd ! k))),
                                 (''unit'', JStr ''inches'')]),
                        (''average_depth'',
                           JNum (py_round 1 (sum_list (map snd sd) / of_nat (length sd)))),
                        (''days_with_snow'',
                           JNum (of_nat (length (filter (\<lambda>d. 0 < snd d) sd)))),
                        (''total_observations'', JNum (of_nat (length sd)))])
                     result)"
    using assms k(4) py_first_map [OF k(5), of fst] days
    by (simp add: snow_depth_block_def Let_def py_truediv_def)
  with k(1,2,3) show ?thesis by blast
qed


lemma snowfall_block_first_max:
  assumes "days \<noteq> []"
  shows "\<exists>k<length days.
           (\<forall>j<length days. amount (days ! j) \<le> amount (days ! k))
           \<and> (\<forall>j<k. amount (days ! j) < amount (days ! k))
           \<and> snowfall_block days result =
               Inr (AList.update ''snowfall_analysis''
                     (JObj
                       [(''total_new_snow'', JNum (py_round 1 (sum_list (map amount days)))),
                        (''snow_days'', JNum (of_nat (length days))),
                        (''biggest_day'',
                           JObj [(''amount'', JNum (py_round 1 (amount (days ! k)))),
                                 (''date'', json_date (sdate (days ! k))),
                                 (''unit'', JStr ''inches'')]),
                        (''average_per_snow_day'',
                           JNum (py_round 1 (sum_list (map amount days) / of_nat (length days)))),
                        (''snowfall_events'', JArr (map json_of_snowfall_day days))])
                     result)"
proof -
  from first_maximum [OF assms, of amount] obtain k where k: "k < length days"
    "\<forall>j<length days. amount (days ! j) \<le> amount (days ! k)"
    "\<forall>j<k. amount (days ! j) < amount (days ! k)"
    "py_max (map amount days) = Inr (amount (days ! k))"
    "py_first (filter (\<lambda>x. amount x = amount (days ! k)) days) = Inr (days ! k)"
    by blast
  have "snowfall_block days result =
               Inr (AList.update ''snowfall_analysis''
                     (JObj
                       [(''total_new_snow'', JNum (py_round 1 (sum_list (map amount days)))),
                        (''snow_days'', JNum (of_nat (length days))),
                        (''biggest_day'',
                           JObj [(''amount'', JNum (py_round 1 (amount (days ! k)))),
                                 (''date'', json_date (sdate (days ! k))),
                                 (''unit'', JStr ''inches'')]),
                        (''average_per_snow_day'',
                           JNum (py_round 1 (sum_list (map amount days) / of_nat (length days)))),
                        (''snowfall_events'', JArr (map json_of_snowfall_day days))])
                     result)"
    using assms k(4,5)
    by (simp add: snowfall_block_def Let_def py_truediv_def)
  with k(1,2,3) show ?thesis by blast
qed



lemma swe_block_first_max:
  assumes "sw \<noteq> []"
  shows "\<exists>k<length sw.
           (\<forall>j<length sw. snd (sw ! j) \<le> snd (sw ! k)) \<and> (\<forall>j<k. snd (sw ! j) < snd (sw ! k))
           \<and> swe_block sw result =
               Inr (AList.update ''swe_analysis''
                     (JObj
                       [(''peak_swe'',
                           JObj [(''value'', JNum (py_round 2 (snd (sw ! k)))),
                                 (''date'', json_date (fst (sw ! k))),
                                 (''unit'', JStr ''inches'')]),
                        (''average_swe'',
                           JNum (py_round 2 (sum_list (map snd sw) / of_nat (length sw)))),
                        (''total_observations'', JNum (of_nat (length sw)))])
                     result)"
proof -
  from first_maximum [OF assms, of snd] obtain k where k: "k < length sw"
    "\<forall>j<length sw. snd (sw ! j) \<le> snd (sw ! k)" "\<forall>j<k. snd (sw ! j) < snd (sw ! k)"
    "py_max (map snd sw) = Inr (snd (sw ! k))"
    "py_first (filter (\<lambda>x. snd x = snd (sw ! k)) sw) = Inr (sw ! k)"
    by blast
  have "swe_block sw result =
               Inr (AList.update ''swe_analysis''
                     (JObj
                       [(''peak_swe'',
                           JObj [(''value'', JNum (py_round 2 (snd (sw ! k)))),
                                 (''date'', json_date (fst (sw ! k))),
                                 (''unit'', JStr ''inches'')]),
                        (''average_swe'',
                           JNum (py_round 2 (sum_list (map snd sw) / of_nat (length sw)))),
                        (''total_observations'', JNum (of_nat (length sw)))])
                     result)"
    using assms k(4) py_first_map [OF k(5), of fst]
    by (simp add: swe_block_def Let_def py_truediv_def)
  with k(1,2,3) show ?thesis by blast
qed

lemma snow_depth_block_returns:
  "\<exists>report. snow_depth_block sd result =
     Inr (if sd = [] then result else AList.update ''snow_depth_analysis'' report result)"
proof (cases "sd = []")
  case True
  then show ?thesis by (simp add: snow_depth_block_def)
next
  case False
  from snow_depth_block_first_max [OF this, of result] show ?thesis
    using False by auto
qed

lemma swe_block_returns:
  "\<exists>report. swe_block sw result =
     Inr (if sw = [] then result else AList.update ''swe_analysis'' report result)"
proof (cases "sw = []")
  case True
  then show ?thesis by (simp add: swe_block_def)
next
  case False
  from swe_block_first_max [OF this, of result] show ?thesis
    using False by auto
qed

lemma snowfall_block_returns:
  "\<exists>report. snowfall_block days result =
     Inr (if days = [] then result else AList.update ''snowfall_analysis'' report result)"
proof (cases "days = []")
  case True
  then show ?thesis by (simp add: snowfall_block_def)
next
  case False
  from snowfall_block_first_max [OF this, of result] show ?thesis
    using False by auto
qed

lemma trend_summary_returns:
  "\<exists>a b c. trend_summary t s e ms =
     Inr ((if snowfall_days (snow_depths ms) = [] then id else AList.update ''snowfall_analysis'' c)
           ((if swes ms = [] then id else AList.update ''swe_analysis'' b)
             ((if snow_depths ms = [] then id else AList.update ''snow_depth_analysis'' a)
               (initial_result t s e ms))))"
proof -
  obtain a where a: "snow_depth_block (snow_depths ms) (initial_result t s e ms) =
      Inr (if snow_depths ms = [] then initial_result t s e ms
           else AList.update ''snow_depth_analysis'' a (initial_result t s e ms))"
    using snow_depth_block_returns by blast
  define r1 where "r1 = (if snow_depths ms = [] then initial_result t s e ms
           else AList.update ''snow_depth_analysis'' a (initial_result t s e ms))"
  obtain b where b: "swe_block (swes ms) r1 =
      Inr (if swes ms = [] then r1 else AList.update ''swe_analysis'' b r1)"
    using swe_block_returns by blast
  define r2 where "r2 = (if swes ms = [] then r1 else AList.update ''swe_analysis'' b r1)"
  obtain c where c: "snowfall_block (snowfall_days (snow_depths ms)) r2 =
      Inr (if snowfall_days (snow_depths ms) = [] then r2
           else AList.update ''snowfall_analysis'' c r2)"
    using snowfall_block_returns by blast
  have "trend_summary t s e ms =
     Inr ((if snowfall_days (snow_depths ms) = [] then id else AList.update ''snowfall_analysis'' c)
           ((if swes ms = [] then id else AList.update ''swe_analysis'' b)
             ((if snow_depths ms = [] then id else AList.update ''snow_depth_analysis'' a)
               (initial_result t s e ms))))"
    using a b c by (simp add: trend_summary_def r1_def [symmetric] r2_def [symmetric])
       (simp add: r1_def r2_def)
  then show ?thesis by blast
qed

subsection \<open>The tool on a whole response\<close>

text \<open>The blocks above as the tool runs them: the document for one station with four
  daily depths.\<close>

lemma analyze_snowpack_trends_example:
  "analyze_snowpack_trends ''713:CO:SNTL'' ''2024-01-01'' ''2024-01-04''
     (Inr [\<lparr>stationTriplet = Some ''713:CO:SNTL'',
            data = Some
              [\<lparr>elementCode = Some ''SNWD'',
                vals = Some [\<lparr>date = Some ''2024-01-01'', val = Some 10\<rparr>,
                             \<lparr>date = Some ''2024-01-02'', val = Some 14\<rparr>,
                             \<lparr>date = Some ''2024-01-03'', val = Some 14\<rparr>,
                             \<lparr>date = Some ''2024-01-04'', val = Some 20\<rparr>]\<rparr>]\<rparr>])
   = JObj
      [(''station_triplet'', JStr ''713:CO:SNTL''),
       (''period'',
          JObj [(''start_date'', JStr ''2024-01-01''), (''end_date'', JStr ''2024-01-04'')]),
       (''total_records'', JNum 4),
       (''snow_depth_analysis'',
          JObj [(''peak_depth'',
                   JObj [(''value'', JNum 20), (''date'', JStr ''2024-01-04''),
                         (''unit'', JStr ''inches'')]),
                (''average_depth'', JNum (29 / 2)),
                (''days_with_snow'', JNum 4),
                (''total_observations'', JNum 4)]),
       (''swe_analysis'', JObj []),
       (''snowfall_analysis'',
          JObj [(''total_new_snow'', JNum 10),
                (''snow_days'', JNum 2),
                (''biggest_day'',
                   JObj [(''amount'', JNum 6), (''date'', JStr ''2024-01-04''),
                         (''unit'', JStr ''inches'')]),
                (''average_per_snow_day'', JNum 5),
                (''snowfall_events'',
                   JArr [JObj [(''date'', JStr ''2024-01-02''), (''amount'', JNum 4)],
                         JObj [(''date'', JStr ''2024-01-04''), (''amount'', JNum 6)]])]),
       (''measurements'',
          JArr [JObj [(''date'', JStr ''2024-01-01''), (''SNWD'', JNum 10)],
                JObj [(''date'', JStr ''2024-01-02''), (''SNWD'', JNum 14)],
                JObj [(''date'', JStr ''2024-01-03''), (''SNWD'', JNum 14)],
                JObj [(''date'', JStr ''2024-01-04''), (''SNWD'', JNum 20)]])]"
  by code_simp

text \<open>An entry without a date makes the whole analysis answer with the error document.\<close>

lemma analyze_snowpack_trends_missing_date:
  "analyze_snowpack_trends ''713:CO:SNTL'' ''2024-01-01'' ''2024-01-04''
     (Inr [\<lparr>stationTriplet = Some ''713:CO:SNTL'',
            data = Some
              [\<lparr>elementCode = Some ''SNWD'',
                vals = Some [\<lparr>date = Some ''2024-01-01'', val = Some 5\<rparr>,
                             \<lparr>date = None, val = Some 6\<rparr>]\<rparr>]\<rparr>])
   = JObj [(''error'', JStr (''Error analyzing snowpack trends: '' @ str_exc TypeError))]"
  by code_simp

text \<open>An entry without a date next to a dated one: \<^verbatim>\<open>sorted(dates)\<close> raises.\<close>

lemma missing_date_raises:
  "normalize_station
      [\<lparr>elementCode = Some ''SNWD'',
        vals = Some [\<lparr>date = Some ''2024-01-01'', val = Some 5\<rparr>,
                     \<lparr>date = None, val = Some 6\<rparr>]\<rparr>]
    = Inl TypeError"
  by code_simp

section \<open>The claims\<close>





text \<open>
  C3 (as the code has it). A record holds an element key exactly when the series in effect
  for that element has an entry with the record's date, and it then maps the key to the
  value of the first such entry, whatever that value is: an explicit null of the source
  is kept in the record as null, it is not turned into absence.
\<close>

theorem normalized_record_keeps_null:
  "normalize_station gs = Inr ms \<Longrightarrow> r \<in> set ms \<Longrightarrow>
     map_of (elems r) c =
       (case map_of (element_data gs) c of
          None \<Rightarrow> None
        | Some vs \<Rightarrow> map_option val (first_match (mdate r) vs))"
  using normalize_station_mem [of gs ms r] map_of_elems_make_record [of gs "mdate r" c]
  by simp

theorem normalized_record_keeps_null_witness:
  "map_of (elems \<lparr>mdate = Some ''2024-01-01'', elems = [(''SNWD'', None)]\<rparr>) ''SNWD''
     = Some None"
proof -
  let ?gs = "[\<lparr>elementCode = Some ''SNWD'',
               vals = Some [\<lparr>date = Some ''2024-01-01'', val = None\<rparr>,
                            \<lparr>date = Some ''2024-01-01'', val = Some 3\<rparr>,
                            \<lparr>date = Some ''2024-01-02'', val = Some 4\<rparr>]\<rparr>]"
  let ?r = "\<lparr>mdate = Some ''2024-01-01'', elems = [(''SNWD'', None)]\<rparr>"
  let ?ms = "[?r, \<lparr>mdate = Some ''2024-01-02'', elems = [(''SNWD'', Some 4)]\<rparr>]"
  have run: "normalize_station ?gs = Inr ?ms"
    by code_simp
  have mem: "?r \<in> set ?ms"
    by simp
  have series: "(case map_of (element_data ?gs) ''SNWD'' of
                   None \<Rightarrow> None
                 | Some vs \<Rightarrow> map_option val (first_match (mdate ?r) vs)) = Some None"
    by code_simp
  from normalized_record_keeps_null [OF run mem, of "''SNWD''"] series show ?thesis
    by (rule trans)
qed

text \<open>C3 as stated fails: a series whose entry for a date holds an explicit null gives a
  record in which the element key is present and mapped to null.\<close>

theorem null_value_in_record_counterexample:
  "normalize_station
      [\<lparr>elementCode = Some ''SNWD'',
        vals = Some [\<lparr>date = Some ''2024-01-01'', val = None\<rparr>]\<rparr>]
    = Inr [\<lparr>mdate = Some ''2024-01-01'', elems = [(''SNWD'', None)]\<rparr>]"
  by code_simp








text \<open>
  C7 (as the code has it). The summary of a list of measurements is always produced, and
  it always carries the seven keys of the initial dictionary. When no record has a depth
  that is not null, the key \<^verbatim>\<open>snow_depth_analysis\<close> is present and holds the empty object
  (no statistics, no zeros); when no snowfall event is derived, the key
  \<^verbatim>\<open>snowfall_analysis\<close> is present and holds the empty object.
\<close>

theorem empty_sub_reports_present:
  "\<exists>result. trend_summary t s e ms = Inr result
     \<and> map fst result = [''station_triplet'', ''period'', ''total_records'',
          ''snow_depth_analysis'', ''swe_analysis'', ''snowfall_analysis'', ''measurements'']
     \<and> (snow_depths ms = [] \<longrightarrow> map_of result ''snow_depth_analysis'' = Some (JObj []))
     \<and> (snowfall_days (snow_depths ms) = [] \<longrightarrow>
           map_of result ''snowfall_analysis'' = Some (JObj []))"
proof -
  from trend_summary_returns [of t s e ms] obtain a b c where
    "trend_summary t s e ms =
     Inr ((if snowfall_days (snow_depths ms) = [] then id else AList.update ''snowfall_analysis'' c)
           ((if swes ms = [] then id else AList.update ''swe_analysis'' b)
             ((if snow_depths ms = [] then id else AList.update ''snow_depth_analysis'' a)
               (initial_result t s e ms))))"
    by blast
  then show ?thesis
    by (simp add: initial_result_def AList.update_conv')
qed

theorem empty_sub_reports_present_witness:
  "\<exists>result.
     trend_summary ''713:CO:SNTL'' ''2024-01-01'' ''2024-01-02''
       [\<lparr>mdate = Some ''2024-01-01'', elems = [(''WTEQ'', Some 3)]\<rparr>] = Inr result
     \<and> map_of result ''snow_depth_analysis'' = Some (JObj [])
     \<and> map_of result ''snowfall_analysis'' = Some (JObj [])"
proof -
  let ?ms = "[\<lparr>mdate = Some ''2024-01-01'', elems = [(''WTEQ'', Some 3)]\<rparr>]"
  have no_depth: "snow_depths ?ms = []"
    by code_simp
  have no_events: "snowfall_days (snow_depths ?ms) = []"
    by code_simp
  from empty_sub_reports_present [of "''713:CO:SNTL''" "''2024-01-01''" "''2024-01-02''" ?ms]
    no_depth no_events
  show ?thesis
    by blast
qed

text \<open>C7 as stated fails: for a station that reports only \<^verbatim>\<open>WTEQ\<close> the document still has
  the keys \<^verbatim>\<open>snow_depth_analysis\<close> and \<^verbatim>\<open>snowfall_analysis\<close>, each with an empty
  object.\<close>

theorem sub_report_key_present_counterexample:
  "analyze_snowpack_trends ''713:CO:SNTL'' ''2024-01-01'' ''2024-01-02''
     (Inr [\<lparr>stationTriplet = Some ''713:CO:SNTL'',
            data = Some [\<lparr>elementCode = Some ''WTEQ'',
                          vals = Some [\<lparr>date = Some ''2024-01-01'', val = Some 3\<rparr>]\<rparr>]\<rparr>])
   = JObj
      [(''station_triplet'', JStr ''713:CO:SNTL''),
       (''period'',
          JObj [(''start_date'', JStr ''2024-01-01''), (''end_date'', JStr ''2024-01-02'')]),
       (''total_records'', JNum 1),
       (''snow_depth_analysis'', JObj []),
       (''swe_analysis'',
          JObj [(''peak_swe'',
                   JObj [(''value'', JNum 3), (''date'', JStr ''2024-01-01''),
                         (''unit'', JStr ''inches'')]),
                (''average_swe'', JNum 3),
                (''total_observations'', JNum 1)]),
       (''snowfall_analysis'', JObj []),
       (''measurements'', JArr [JObj [(''date'', JStr ''2024-01-01''), (''WTEQ'', JNum 3)]])]"
  by code_simp




text \<open>
  C9 (as the code has it). When the source returns an empty list, the tool returns, and
  does not raise, the document \<^verbatim>\<open>{"error": "No data available for analysis: <triplet>"}\<close>;
  when it returns stations none of which yields a record, the document
  \<^verbatim>\<open>{"error": "No measurements found for analysis"}\<close>. A transport failure gives
  \<^verbatim>\<open>{"error": "Error analyzing snowpack trends: <message>"}\<close>. The no-data document
  and the transport-failure document have the same shape, the single key \<^verbatim>\<open>error\<close>
  with a text; they differ in the text only.
\<close>

theorem no_data_result:
  "analyze_snowpack_trends t s e (Inr [])
     = JObj [(''error'', JStr (''No data available for analysis: '' @ t))]
   \<and> (stations \<noteq> [] \<and> parse_measurements t stations = Inr [] \<longrightarrow>
        analyze_snowpack_trends t s e (Inr stations)
          = JObj [(''error'', JStr ''No measurements found for analysis'')])
   \<and> analyze_snowpack_trends t s e (Inl exc)
     = JObj [(''error'', JStr (''Error analyzing snowpack trends: '' @ str_exc exc))]
   \<and> shape (analyze_snowpack_trends t s e (Inr [])) = shape (analyze_snowpack_trends t s e (Inl exc))
   \<and> analyze_snowpack_trends t s e (Inr []) \<noteq> analyze_snowpack_trends t s e (Inl exc)"
  by (simp add: analyze_snowpack_trends_def analyze_body_def shape_def)

theorem no_data_result_witness:
  "analyze_snowpack_trends ''713:CO:SNTL'' ''2024-01-01'' ''2024-01-31''
     (Inr [\<lparr>stationTriplet = Some ''669:CO:SNTL'', data = Some []\<rparr>])
   = JObj [(''error'', JStr ''No measurements found for analysis'')]"
proof -
  let ?stations = "[\<lparr>stationTriplet = Some ''669:CO:SNTL'', data = Some []\<rparr>]"
  have hyp: "?stations \<noteq> [] \<and> parse_measurements ''713:CO:SNTL'' ?stations = Inr []"
    by code_simp
  from no_data_result [of "''713:CO:SNTL''" "''2024-01-01''" "''2024-01-31''" ?stations] hyp
  show ?thesis
    by blast
qed

text \<open>C9 as stated fails: the no-data document and the transport-failure document have
  the same shape.\<close>

theorem no_data_same_shape_counterexample:
  "shape (analyze_snowpack_trends ''713:CO:SNTL'' ''2024-01-01'' ''2024-01-31'' (Inr []))
    = shape (analyze_snowpack_trends ''713:CO:SNTL'' ''2024-01-01'' ''2024-01-31''
               (Inl (TransportError ''timed out'')))"
  by code_simp

text \<open>
  C10. Where a later group of the list carries the element code of group \<open>g\<close>, the values
  list of \<open>g\<close> has no effect at all: any other list in its place gives the same result.
  The series in effect for an element code is the values list of the last group with
  that code.
\<close>

theorem last_group_wins:
  "(code_of g \<in> code_of ` set gs2 \<longrightarrow>
      normalize_station (gs1 @ g # gs2) = normalize_station (gs1 @ g\<lparr>vals := other\<rparr> # gs2))
   \<and> (code_of g \<notin> code_of ` set gs2 \<longrightarrow>
      map_of (element_data (gs1 @ g # gs2)) (code_of g) = Some (values_of g))"
proof -
  have "code_of (g\<lparr>vals := other\<rparr>) = code_of g"
    by (simp add: code_of_def)
  then have "element_data (gs1 @ g # gs2) = element_data (gs1 @ g\<lparr>vals := other\<rparr> # gs2)"
    if "code_of g \<in> code_of ` set gs2"
    using that
    by (simp add: element_data_def element_data_loop_append element_data_loop_overwritten)
  then show ?thesis
    by (simp add: normalize_station_def map_of_element_data_last)
qed

theorem last_group_wins_witness:
  "normalize_station
      ([] @ \<lparr>elementCode = Some ''SNWD'',
              vals = Some [\<lparr>date = Some ''2024-01-01'', val = Some 5\<rparr>]\<rparr>
          # [\<lparr>elementCode = Some ''SNWD'',
              vals = Some [\<lparr>date = Some ''2024-01-02'', val = Some 7\<rparr>]\<rparr>])
    = Inr [\<lparr>mdate = Some ''2024-01-02'', elems = [(''SNWD'', Some 7)]\<rparr>]"
proof -
  let ?g = "\<lparr>elementCode = Some ''SNWD'',
             vals = Some [\<lparr>date = Some ''2024-01-01'', val = Some 5\<rparr>]\<rparr>"
  let ?h = "\<lparr>elementCode = Some ''SNWD'',
             vals = Some [\<lparr>date = Some ''2024-01-02'', val = Some 7\<rparr>]\<rparr>"
  have later: "code_of ?g \<in> code_of ` set [?h]"
    by (simp add: code_of_def)
  have "normalize_station ([] @ ?g\<lparr>vals := None\<rparr> # [?h])
      = Inr [\<lparr>mdate = Some ''2024-01-02'', elems = [(''SNWD'', Some 7)]\<rparr>]"
    by code_simp
  with last_group_wins [of ?g "[?h]" "[]" None] later show ?thesis
    by simp
qed

end
